theory Spec2Isabelle
  imports Complex_Main
begin

section \<open>Python strings\<close>

text \<open>
  A Python \<open>str\<close> is modelled by the list of the bytes of its UTF-8 encoding. Every
  delimiter the program and \<open>urllib.parse\<close> look for is an ASCII character, and a byte
  below 128 occurs in a UTF-8 string only as the ASCII character itself, so searching,
  splitting and slicing at such delimiters agree with the operations on code points.
\<close>

definition is_ascii :: "char \<Rightarrow> bool" where
  "is_ascii c = ((of_char c :: nat) < 128)"

definition is_ascii_alpha :: "char \<Rightarrow> bool" where
  "is_ascii_alpha c =
     (let n = (of_char c :: nat) in (65 \<le> n \<and> n \<le> 90) \<or> (97 \<le> n \<and> n \<le> 122))"

definition is_ascii_digit :: "char \<Rightarrow> bool" where
  "is_ascii_digit c = (let n = (of_char c :: nat) in 48 \<le> n \<and> n \<le> 57)"

text \<open>
  \<open>str.lower\<close> on the ASCII letters. Python also lowercases letters outside ASCII; the
  only one whose lower case is an ASCII letter is the Kelvin sign (to \<open>k\<close>), and the
  program compares host names with three names that have no \<open>k\<close>.
\<close>

definition ascii_lower :: "char \<Rightarrow> char" where
  "ascii_lower c =
     (let n = (of_char c :: nat) in if 65 \<le> n \<and> n \<le> 90 then char_of (n + 32) else c)"

definition py_lower :: "string \<Rightarrow> string" where
  "py_lower s = map ascii_lower s"

text \<open>\<open>s.partition(c)\<close> and \<open>s.split(c, 1)\<close>: the parts before and after the first \<open>c\<close>.\<close>

definition before_first :: "char \<Rightarrow> string \<Rightarrow> string" where
  "before_first c s = takeWhile (\<lambda>x. x \<noteq> c) s"

definition after_first :: "char \<Rightarrow> string \<Rightarrow> string" where
  "after_first c s = drop 1 (dropWhile (\<lambda>x. x \<noteq> c) s)"

text \<open>\<open>s.rpartition(c)[2]\<close>: the part after the last \<open>c\<close>, all of \<open>s\<close> when there is none.\<close>

definition after_last :: "char \<Rightarrow> string \<Rightarrow> string" where
  "after_last c s = rev (takeWhile (\<lambda>x. x \<noteq> c) (rev s))"

text \<open>\<open>s.split(c)\<close> for a one-character separator; \<open>''.split(c)\<close> is \<open>['']\<close>.\<close>

fun py_split :: "char \<Rightarrow> string \<Rightarrow> string list" where
  "py_split c [] = [[]]"
| "py_split c (x # xs) =
     (if x = c then [] # py_split c xs
      else (case py_split c xs of [] \<Rightarrow> [[x]] | t # ts \<Rightarrow> (x # t) # ts))"

definition py_startswith :: "string \<Rightarrow> string \<Rightarrow> bool" where
  "py_startswith s pre = (take (length pre) s = pre)"

text \<open>\<open>sep.join(xs)\<close>.\<close>

fun py_join :: "string \<Rightarrow> string list \<Rightarrow> string" where
  "py_join sep [] = []"
| "py_join sep [x] = x"
| "py_join sep (x # y # ys) = x @ sep @ py_join sep (y # ys)"

datatype py_error = ValueError | IndexError

text \<open>\<open>xs[i]\<close> for \<open>i \<ge> 0\<close>, which raises \<open>IndexError\<close> out of range.\<close>

definition py_index :: "'a list \<Rightarrow> nat \<Rightarrow> py_error + 'a" where
  "py_index xs i = (if i < length xs then Inr (xs ! i) else Inl IndexError)"

section \<open>The parts of \<open>urllib.parse\<close> the program calls\<close>

text \<open>
  The model follows CPython's \<open>urllib/parse.py\<close> (3.11 and later: the separator of
  \<open>parse_qs\<close> is \<open>&\<close> alone). Three verdicts of the library are not computed here and
  are parameters of the model:
  \<^item> \<open>nfkc_ok netloc\<close>: the check of \<open>_checknetloc\<close> passes (it is only made for a
    network location with a character outside ASCII);
  \<^item> \<open>bracketed_ok netloc\<close>: the check of a bracketed host passes (it is only made for
    a network location with both \<open>[\<close> and \<open>]\<close>; it uses the \<open>ipaddress\<close> module);
  \<^item> \<open>utf8_replace bs\<close>: the UTF-8 encoding of \<open>bs.decode('utf-8', 'replace')\<close>.
\<close>

record pylib =
  nfkc_ok :: "string \<Rightarrow> bool"
  bracketed_ok :: "string \<Rightarrow> bool"
  utf8_replace :: "string \<Rightarrow> string"

record ParseResult =
  scheme :: string
  netloc :: string
  path :: string
  params :: string
  query :: string
  fragment :: string

definition c0_control_or_space :: "char \<Rightarrow> bool" where
  "c0_control_or_space c = ((of_char c :: nat) \<le> 32)"

definition unsafe_url_byte :: "char \<Rightarrow> bool" where
  "unsafe_url_byte c = ((of_char c :: nat) \<in> {9, 10, 13})"

definition scheme_char :: "char \<Rightarrow> bool" where
  "scheme_char c = (is_ascii_alpha c \<or> is_ascii_digit c \<or> c \<in> set ''+-.'')"

definition uses_params :: "string list" where
  "uses_params = ['''', ''ftp'', ''hdl'', ''prospero'', ''http'', ''imap'', ''https'',
     ''shttp'', ''rtsp'', ''rtsps'', ''rtspu'', ''sip'', ''sips'', ''mms'', ''sftp'', ''tel'']"

text \<open>The scheme of \<open>urlsplit\<close>: the text before the first colon, when it is not empty,
  starts with an ASCII letter and consists of scheme characters.\<close>

definition split_scheme :: "string \<Rightarrow> string \<times> string" where
  "split_scheme url =
     (let pre = before_first CHR '':'' url in
      if CHR '':'' \<in> set url \<and> pre \<noteq> [] \<and> is_ascii_alpha (hd pre) \<and> list_all scheme_char pre
      then (py_lower pre, after_first CHR '':'' url)
      else ('''', url))"

definition netloc_delim :: "char \<Rightarrow> bool" where
  "netloc_delim c = (c \<in> set ''/?#'')"

text \<open>\<open>_splitnetloc(url, 2)\<close>.\<close>

definition splitnetloc :: "string \<Rightarrow> string \<times> string" where
  "splitnetloc url =
     (takeWhile (\<lambda>c. \<not> netloc_delim c) (drop 2 url),
      dropWhile (\<lambda>c. \<not> netloc_delim c) (drop 2 url))"

definition netloc_error :: "pylib \<Rightarrow> string \<Rightarrow> bool" where
  "netloc_error L nl =
     ((CHR ''['' \<in> set nl \<and> CHR '']'' \<notin> set nl) \<or>
      (CHR '']'' \<in> set nl \<and> CHR ''['' \<notin> set nl) \<or>
      (CHR ''['' \<in> set nl \<and> CHR '']'' \<in> set nl \<and> \<not> bracketed_ok L nl) \<or>
      (nl \<noteq> [] \<and> \<not> list_all is_ascii nl \<and> \<not> nfkc_ok L nl))"

text \<open>\<open>_splitparams\<close>: the parameters are cut from the last segment of the path.\<close>

definition splitparams :: "string \<Rightarrow> string \<times> string" where
  "splitparams url =
     (let seg = after_last CHR ''/'' url;
          dir = take (length url - length seg) url
      in if CHR '';'' \<in> set seg
         then (dir @ before_first CHR '';'' seg, after_first CHR '';'' seg)
         else (url, ''''))"

definition urlparse :: "pylib \<Rightarrow> string \<Rightarrow> py_error + ParseResult" where
  "urlparse L url0 =
     (let url1 = filter (\<lambda>c. \<not> unsafe_url_byte c) (dropWhile c0_control_or_space url0);
          (sch, url2) = split_scheme url1;
          (nl, url3) = (if take 2 url2 = ''//'' then splitnetloc url2 else ('''', url2));
          (url4, frag) = (if CHR ''#'' \<in> set url3
                          then (before_first CHR ''#'' url3, after_first CHR ''#'' url3)
                          else (url3, ''''));
          (url5, qry) = (if CHR ''?'' \<in> set url4
                         then (before_first CHR ''?'' url4, after_first CHR ''?'' url4)
                         else (url4, ''''));
          (url6, prm) = (if sch \<in> set uses_params \<and> CHR '';'' \<in> set url5
                         then splitparams url5 else (url5, ''''))
      in if netloc_error L nl then Inl ValueError
         else Inr \<lparr>scheme = sch, netloc = nl, path = url6, params = prm,
                   query = qry, fragment = frag\<rparr>)"

text \<open>The \<open>hostname\<close> property of a parse result.\<close>

definition hostname :: "ParseResult \<Rightarrow> string option" where
  "hostname p =
     (let hostinfo = after_last CHR ''@'' (netloc p);
          host = (if CHR ''['' \<in> set hostinfo
                  then before_first CHR '']'' (after_first CHR ''['' hostinfo)
                  else before_first CHR '':'' hostinfo)
      in if host = [] then None
         else Some (py_lower (before_first CHR ''%'' host) @
                    dropWhile (\<lambda>c. c \<noteq> CHR ''%'') host))"

definition is_hexdig :: "char \<Rightarrow> bool" where
  "is_hexdig c = (c \<in> set ''0123456789ABCDEFabcdef'')"

definition hexval :: "char \<Rightarrow> nat" where
  "hexval c =
     (let n = (of_char c :: nat) in
      if n \<le> 57 then n - 48 else if n \<le> 70 then n - 55 else n - 87)"

definition unquote_item :: "string \<Rightarrow> string" where
  "unquote_item item =
     (case item of
        a # b # rest \<Rightarrow>
          (if is_hexdig a \<and> is_hexdig b then char_of (16 * hexval a + hexval b) # rest
           else CHR ''%'' # item)
      | _ \<Rightarrow> CHR ''%'' # item)"

definition unquote_to_bytes :: "string \<Rightarrow> string" where
  "unquote_to_bytes s =
     (case py_split CHR ''%'' s of [] \<Rightarrow> [] | b # bs \<Rightarrow> b @ concat (map unquote_item bs))"

text \<open>The loop of \<open>unquote\<close> over the runs of ASCII and of other characters: an ASCII
  run is unquoted to bytes and decoded, any other run is kept.\<close>

function unquote_runs :: "pylib \<Rightarrow> string \<Rightarrow> string" where
  "unquote_runs L s =
     (if s = [] then []
      else if is_ascii (hd s)
      then utf8_replace L (unquote_to_bytes (takeWhile is_ascii s)) @
           unquote_runs L (dropWhile is_ascii s)
      else takeWhile (\<lambda>c. \<not> is_ascii c) s @
           unquote_runs L (dropWhile (\<lambda>c. \<not> is_ascii c) s))"
  by pat_completeness auto
termination
proof (relation "measure (\<lambda>(L, s). length s)")
  show "wf (measure (\<lambda>(L :: pylib, s :: string). length s))" by simp
next
  fix L :: pylib and s :: string
  assume "s \<noteq> []" "is_ascii (hd s)"
  then have "length (dropWhile is_ascii s) < length s"
    by (cases s) (auto simp: le_imp_less_Suc length_dropWhile_le)
  then show "((L, dropWhile is_ascii s), (L, s)) \<in> measure (\<lambda>(L, s). length s)" by simp
next
  fix L :: pylib and s :: string
  assume "s \<noteq> []" "\<not> is_ascii (hd s)"
  then have "length (dropWhile (\<lambda>c. \<not> is_ascii c) s) < length s"
    by (cases s) (auto simp: le_imp_less_Suc length_dropWhile_le)
  then show "((L, dropWhile (\<lambda>c. \<not> is_ascii c) s), (L, s)) \<in> measure (\<lambda>(L, s). length s)"
    by simp
qed

definition unquote :: "pylib \<Rightarrow> string \<Rightarrow> string" where
  "unquote L s = (if CHR ''%'' \<notin> set s then s else unquote_runs L s)"

definition unquote_plus :: "pylib \<Rightarrow> string \<Rightarrow> string" where
  "unquote_plus L s = unquote L (map (\<lambda>c. if c = CHR ''+'' then CHR '' '' else c) s)"

text \<open>One field of the query string in \<open>parse_qsl\<close>: an empty field and a field with a
  blank value are skipped (\<open>keep_blank_values\<close> is false).\<close>

definition parse_field :: "pylib \<Rightarrow> string \<Rightarrow> (string \<times> string) list" where
  "parse_field L name_value =
     (if name_value \<noteq> [] \<and> after_first CHR ''='' name_value \<noteq> []
      then [(unquote_plus L (before_first CHR ''='' name_value),
             unquote_plus L (after_first CHR ''='' name_value))]
      else [])"

definition parse_qsl :: "pylib \<Rightarrow> string \<Rightarrow> (string \<times> string) list" where
  "parse_qsl L qs =
     (if qs = [] then [] else concat (map (parse_field L) (py_split CHR ''&'' qs)))"

fun parse_qs_loop ::
  "(string \<rightharpoonup> string list) \<Rightarrow> (string \<times> string) list \<Rightarrow> (string \<rightharpoonup> string list)" where
  "parse_qs_loop d [] = d"
| "parse_qs_loop d ((name, val) # pairs) =
     parse_qs_loop
       (case d name of Some vs \<Rightarrow> d(name \<mapsto> vs @ [val]) | None \<Rightarrow> d(name \<mapsto> [val]))
       pairs"

definition parse_qs :: "pylib \<Rightarrow> string \<Rightarrow> (string \<rightharpoonup> string list)" where
  "parse_qs L qs = parse_qs_loop Map.empty (parse_qsl L qs)"

section \<open>Video id extraction\<close>

text \<open>\<open>YouTubeTools.get_youtube_video_id\<close>. The result \<open>Inr None\<close> is Python's \<open>None\<close>;
  \<open>Inl\<close> is an exception that leaves the function.\<close>

definition get_youtube_video_id :: "pylib \<Rightarrow> string \<Rightarrow> py_error + string option" where
  "get_youtube_video_id L url =
     (case urlparse L url of
        Inl e \<Rightarrow> Inl e
      | Inr parsed_url \<Rightarrow>
          if hostname parsed_url = Some ''youtu.be''
          then Inr (Some (drop 1 (path parsed_url)))
          else if hostname parsed_url \<in> {Some ''www.youtube.com'', Some ''youtube.com''}
          then
            if path parsed_url = ''/watch''
            then
              (let query_params = parse_qs L (query parsed_url)
               in py_index (case query_params ''v'' of
                              Some vs \<Rightarrow> map Some vs
                            | None \<Rightarrow> [None]) 0)
            else if py_startswith (path parsed_url) ''/embed/''
            then map_sum id Some (py_index (py_split CHR ''/'' (path parsed_url)) 2)
            else if py_startswith (path parsed_url) ''/v/''
            then map_sum id Some (py_index (py_split CHR ''/'' (path parsed_url)) 2)
            else Inr None
          else Inr None)"

section \<open>Formatting\<close>

definition digit_char :: "nat \<Rightarrow> char" where
  "digit_char d = char_of (48 + d)"

text \<open>The decimal digits of a natural number, as \<open>str\<close> writes them.\<close>

fun str_nat :: "nat \<Rightarrow> string" where
  "str_nat n = (if n < 10 then [digit_char n] else str_nat (n div 10) @ [digit_char (n mod 10)])"

declare str_nat.simps [simp del]

text \<open>\<open>f"{n}"\<close> for an \<open>int\<close>.\<close>

definition str_int :: "int \<Rightarrow> string" where
  "str_int n = (if n < 0 then CHR ''-'' # str_nat (nat (- n)) else str_nat (nat n))"

definition zfill :: "nat \<Rightarrow> string \<Rightarrow> string" where
  "zfill w s = replicate (w - length s) CHR ''0'' @ s"

text \<open>\<open>f"{n:02d}"\<close>: the sign counts in the width; zeros are filled after it.\<close>

definition fmt_02d :: "int \<Rightarrow> string" where
  "fmt_02d n =
     (if n < 0 then CHR ''-'' # zfill 1 (str_nat (nat (- n))) else zfill 2 (str_nat (nat n)))"

text \<open>\<open>int(x)\<close> for a finite number: truncation towards zero.\<close>

definition py_int :: "rat \<Rightarrow> int" where
  "py_int x = (if 0 \<le> x then \<lfloor>x\<rfloor> else \<lceil>x\<rceil>)"

text \<open>\<open>urllib.parse.quote_plus\<close> with no extra safe characters, byte by byte, and
  \<open>urlencode\<close> of a list of string pairs.\<close>

definition hex_upper :: "nat \<Rightarrow> char" where
  "hex_upper d = (if d < 10 then char_of (48 + d) else char_of (55 + d))"

definition quote_plus_char :: "char \<Rightarrow> string" where
  "quote_plus_char c =
     (if is_ascii_alpha c \<or> is_ascii_digit c \<or> c \<in> set ''_.-~'' then [c]
      else if c = CHR '' '' then ''+''
      else [CHR ''%'', hex_upper ((of_char c :: nat) div 16), hex_upper ((of_char c :: nat) mod 16)])"

definition quote_plus :: "string \<Rightarrow> string" where
  "quote_plus s = concat (map quote_plus_char s)"

definition urlencode :: "(string \<times> string) list \<Rightarrow> string" where
  "urlencode ps = py_join ''&'' (map (\<lambda>(k, v). quote_plus k @ ''='' @ quote_plus v) ps)"

section \<open>The collaborators\<close>

text \<open>An exception of a collaborator: its class and the text \<open>str(e)\<close>.\<close>

datatype py_exception = PyException (exc_class: string) (exc_str: string)

text \<open>A value of \<open>json.loads\<close>. An object is the list of its entries, looked up by key.\<close>

datatype json =
    JNull
  | JBool bool
  | JInt int
  | JFloat rat
  | JString string
  | JArray "json list"
  | JObject "(string \<times> json) list"

text \<open>A caption line \<open>{"start": ..., "text": ...}\<close> of the transcript source; the start
  offset is a finite number of seconds.\<close>

record caption_line =
  line_start :: rat
  line_text :: string

text \<open>
  The outbound calls. \<open>urlopen_json u\<close> stands for \<open>urlopen(u)\<close>, \<open>read\<close>, \<open>decode\<close> and
  \<open>json.loads\<close> (lines 111 to 113); \<open>get_transcript v ls\<close> for
  \<open>YouTubeTranscriptApi.get_transcript(v, languages=ls)\<close>, where \<open>None\<close> is the call
  without a \<open>languages\<close> argument. \<open>Inl\<close> is an exception raised by the call.
\<close>

record env =
  urlopen_json :: "string \<Rightarrow> py_exception + json"
  get_transcript :: "string \<Rightarrow> string list option \<Rightarrow> py_exception + caption_line list"

text \<open>The record of one outbound call; every operation returns the calls it has made.\<close>

datatype outbound_call =
    OEmbedCall string
  | TranscriptCall string "string list option"

datatype http_exception = HTTPException (status_code: nat) (detail: string)

section \<open>The three operations\<close>

text \<open>
  The three operations begin with the same lines (95 to 103, 133 to 141, 159 to 167): an
  empty URL is refused; inside the \<open>try\<close>, a missing or empty video id raises the
  \<open>HTTPException\<close> "Invalid YouTube URL", which the \<open>except Exception\<close> of the same
  \<open>try\<close> catches, like an exception of the parser, and replaces.
\<close>

definition video_id_try_body :: "pylib \<Rightarrow> string \<Rightarrow> (py_error + http_exception) + string" where
  "video_id_try_body L url =
     (case get_youtube_video_id L url of
        Inl e \<Rightarrow> Inl (Inl e)
      | Inr None \<Rightarrow> Inl (Inr (HTTPException 400 ''Invalid YouTube URL''))
      | Inr (Some video_id) \<Rightarrow>
          if video_id = [] then Inl (Inr (HTTPException 400 ''Invalid YouTube URL''))
          else Inr video_id)"

definition video_id_or_400 :: "pylib \<Rightarrow> string \<Rightarrow> http_exception + string" where
  "video_id_or_400 L url =
     (if url = [] then Inl (HTTPException 400 ''No URL provided'')
      else (case video_id_try_body L url of
              Inl _ \<Rightarrow> Inl (HTTPException 400 ''Error getting video ID from URL'')
            | Inr video_id \<Rightarrow> Inr video_id))"

definition video_data_keys :: "string list" where
  "video_data_keys = [''title'', ''author_name'', ''author_url'', ''type'', ''height'',
     ''width'', ''version'', ''provider_name'', ''provider_url'', ''thumbnail_url'']"

text \<open>\<open>video_data.get(k)\<close> on a dict: \<open>None\<close> for a missing key.\<close>

definition dict_get :: "(string \<times> json) list \<Rightarrow> string \<Rightarrow> json" where
  "dict_get d k = (case map_of d k of None \<Rightarrow> JNull | Some v \<Rightarrow> v)"

definition clean_data :: "(string \<times> json) list \<Rightarrow> (string \<times> json) list" where
  "clean_data video_data =
     [(''title'', dict_get video_data ''title''),
      (''author_name'', dict_get video_data ''author_name''),
      (''author_url'', dict_get video_data ''author_url''),
      (''type'', dict_get video_data ''type''),
      (''height'', dict_get video_data ''height''),
      (''width'', dict_get video_data ''width''),
      (''version'', dict_get video_data ''version''),
      (''provider_name'', dict_get video_data ''provider_name''),
      (''provider_url'', dict_get video_data ''provider_url''),
      (''thumbnail_url'', dict_get video_data ''thumbnail_url'')]"

definition type_name :: "json \<Rightarrow> string" where
  "type_name j =
     (case j of JNull \<Rightarrow> ''NoneType'' | JBool _ \<Rightarrow> ''bool'' | JInt _ \<Rightarrow> ''int''
      | JFloat _ \<Rightarrow> ''float'' | JString _ \<Rightarrow> ''str'' | JArray _ \<Rightarrow> ''list''
      | JObject _ \<Rightarrow> ''dict'')"

text \<open>\<open>video_data.get\<close> on a JSON value that is not an object raises \<open>AttributeError\<close>.\<close>

definition no_get_attribute :: "json \<Rightarrow> py_exception" where
  "no_get_attribute j =
     PyException ''AttributeError''
       ([CHR 0x27] @ type_name j @ [CHR 0x27] @ '' object has no attribute '' @
        [CHR 0x27] @ ''get'' @ [CHR 0x27])"

definition get_video_data ::
  "pylib \<Rightarrow> env \<Rightarrow> string \<Rightarrow> (http_exception + (string \<times> json) list) \<times> outbound_call list" where
  "get_video_data L E url =
     (case video_id_or_400 L url of
        Inl h \<Rightarrow> (Inl h, [])
      | Inr video_id \<Rightarrow>
          let params = [(''format'', ''json''),
                        (''url'', ''https://www.youtube.com/watch?v='' @ video_id)];
              oembed_url = ''https://www.youtube.com/oembed'';
              query_string = urlencode params;
              full_url = oembed_url @ ''?'' @ query_string
          in ((case urlopen_json E full_url of
                 Inl e \<Rightarrow> Inl (HTTPException 500 (''Error getting video data: '' @ exc_str e))
               | Inr (JObject video_data) \<Rightarrow> Inr (clean_data video_data)
               | Inr other \<Rightarrow>
                   Inl (HTTPException 500
                          (''Error getting video data: '' @ exc_str (no_get_attribute other)))),
              [OEmbedCall full_url]))"

text \<open>Python's truth value of the optional list: \<open>None\<close> and \<open>[]\<close> are false.\<close>

definition truthy :: "string list option \<Rightarrow> bool" where
  "truthy languages = (case languages of None \<Rightarrow> False | Some ls \<Rightarrow> ls \<noteq> [])"

definition get_video_captions ::
  "pylib \<Rightarrow> env \<Rightarrow> string \<Rightarrow> string list option \<Rightarrow>
     (http_exception + string) \<times> outbound_call list" where
  "get_video_captions L E url languages =
     (case video_id_or_400 L url of
        Inl h \<Rightarrow> (Inl h, [])
      | Inr video_id \<Rightarrow>
          let arg = (if truthy languages then languages else None)
          in ((case get_transcript E video_id arg of
                 Inl e \<Rightarrow>
                   Inl (HTTPException 500 (''Error getting captions for video: '' @ exc_str e))
               | Inr captions \<Rightarrow>
                   if captions \<noteq> [] then Inr (py_join '' '' (map line_text captions))
                   else Inr ''No captions found for video''),
              [TranscriptCall video_id arg]))"

text \<open>The body of the loop of \<open>get_video_timestamps\<close> (lines 173 to 175).\<close>

definition timestamp_entry :: "caption_line \<Rightarrow> string" where
  "timestamp_entry line =
     (let start = py_int (line_start line);
          minutes = start div 60;
          seconds = start mod 60
      in str_int minutes @ '':'' @ fmt_02d seconds @ '' - '' @ line_text line)"

definition get_video_timestamps ::
  "pylib \<Rightarrow> env \<Rightarrow> string \<Rightarrow> string list option \<Rightarrow>
     (http_exception + string list) \<times> outbound_call list" where
  "get_video_timestamps L E url languages =
     (case video_id_or_400 L url of
        Inl h \<Rightarrow> (Inl h, [])
      | Inr video_id \<Rightarrow>
          let arg = (if truthy languages then languages else Some [''en''])
          in ((case get_transcript E video_id arg of
                 Inl e \<Rightarrow> Inl (HTTPException 500 (''Error generating timestamps: '' @ exc_str e))
               | Inr captions \<Rightarrow> Inr (map timestamp_entry captions)),
              [TranscriptCall video_id arg]))"

section \<open>Notions used in the statements\<close>

text \<open>A path that is empty or begins with a slash.\<close>

definition rooted :: "string \<Rightarrow> bool" where
  "rooted s = (s = [] \<or> take 1 s = ''/'')"

text \<open>A video id with none of the characters that a URL, a path segment or a query
  field gives a meaning to: not empty, none of \<open>/ ? # ; & + %\<close>, no tab, line feed or
  carriage return.\<close>

definition plain_id :: "string \<Rightarrow> bool" where
  "plain_id ident =
     (ident \<noteq> [] \<and> list_all (\<lambda>c. c \<notin> set ''/?#;&+%'' \<and> \<not> unsafe_url_byte c) ident)"

text \<open>The four URL shapes, with both schemes and both names of the host.\<close>

definition url_shapes :: "string \<Rightarrow> string list" where
  "url_shapes ident =
     [''https://youtu.be/'' @ ident,
      ''http://youtu.be/'' @ ident,
      ''https://www.youtube.com/watch?v='' @ ident,
      ''https://youtube.com/watch?v='' @ ident,
      ''http://www.youtube.com/watch?v='' @ ident,
      ''http://youtube.com/watch?v='' @ ident,
      ''https://www.youtube.com/embed/'' @ ident,
      ''https://youtube.com/embed/'' @ ident,
      ''http://www.youtube.com/embed/'' @ ident,
      ''http://youtube.com/embed/'' @ ident,
      ''https://www.youtube.com/v/'' @ ident,
      ''https://youtube.com/v/'' @ ident,
      ''http://www.youtube.com/v/'' @ ident,
      ''http://youtube.com/v/'' @ ident]"

text \<open>The fields \<open>name=value\<close> of a query string whose name decodes to \<open>v\<close> and whose
  value is not blank, in the order of the query string, and the decoded value of the first
  of them.\<close>

definition v_fields :: "pylib \<Rightarrow> string \<Rightarrow> string list" where
  "v_fields L qs =
     filter (\<lambda>f. after_first CHR ''='' f \<noteq> [] \<and> unquote_plus L (before_first CHR ''='' f) = ''v'')
       (py_split CHR ''&'' qs)"

definition first_v_value :: "pylib \<Rightarrow> string \<Rightarrow> string option" where
  "first_v_value L qs =
     (case v_fields L qs of [] \<Rightarrow> None | f # _ \<Rightarrow> Some (unquote_plus L (after_first CHR ''='' f)))"

text \<open>The seconds of a timestamp: two decimal digits.\<close>

definition two_digits :: "int \<Rightarrow> string" where
  "two_digits s = [digit_char (nat s div 10), digit_char (nat s mod 10)]"

text \<open>The number a string of decimal digits denotes.\<close>

definition decimal_value :: "string \<Rightarrow> nat" where
  "decimal_value s = foldl (\<lambda>a c. 10 * a + (of_char c - 48)) 0 s"

text \<open>The texts joined with one space between neighbours.\<close>

definition spaced :: "string list \<Rightarrow> string" where
  "spaced ts = (case ts of [] \<Rightarrow> [] | t # rest \<Rightarrow> t @ concat (map (\<lambda>s. CHR '' '' # s) rest))"

text \<open>The language argument each operation passes to the transcript source.\<close>

definition captions_languages :: "string list option \<Rightarrow> string list option" where
  "captions_languages languages =
     (case languages of None \<Rightarrow> None | Some ls \<Rightarrow> if ls = [] then None else Some ls)"

definition timestamps_languages :: "string list option \<Rightarrow> string list option" where
  "timestamps_languages languages =
     (case languages of None \<Rightarrow> Some [''en''] | Some ls \<Rightarrow> if ls = [] then Some [''en''] else Some ls)"

text \<open>The request the metadata operation sends for a video id.\<close>

definition oembed_request :: "string \<Rightarrow> string" where
  "oembed_request video_id =
     ''https://www.youtube.com/oembed?format=json&url=https%3A%2F%2Fwww.youtube.com%2Fwatch%3Fv%3D''
       @ quote_plus video_id"

section \<open>Instances for the examples\<close>

text \<open>A library instance: on a URL of ASCII characters without brackets and percent
  signs none of the three verdicts is asked for.\<close>

definition ascii_lib :: pylib where
  "ascii_lib = \<lparr>nfkc_ok = (\<lambda>_. True), bracketed_ok = (\<lambda>_. False), utf8_replace = (\<lambda>s. s)\<rparr>"

text \<open>The collaborators of the end-to-end scenario: two caption lines, and an oEmbed
  object with two of the ten fields.\<close>

definition stub_env :: env where
  "stub_env =
     \<lparr>urlopen_json = (\<lambda>u. Inr (JObject [(''title'', JString ''Hello''), (''height'', JInt 113)])),
      get_transcript = (\<lambda>v ls. Inr [\<lparr>line_start = 0, line_text = ''Hello''\<rparr>,
                                     \<lparr>line_start = 62, line_text = ''world''\<rparr>])\<rparr>"

text \<open>Collaborators that fail, and a transcript source without caption lines.\<close>

definition failing_env :: env where
  "failing_env =
     \<lparr>urlopen_json = (\<lambda>u. Inl (PyException ''HTTPError'' ''HTTP Error 404: Not Found'')),
      get_transcript = (\<lambda>v ls. Inl (PyException ''TranscriptsDisabled'' ''Subtitles are disabled''))\<rparr>"

definition silent_env :: env where
  "silent_env =
     \<lparr>urlopen_json = (\<lambda>u. Inr (JArray [])), get_transcript = (\<lambda>v ls. Inr [])\<rparr>"

section \<open>The operations on a URL that resolves, and on one that does not\<close>

lemma get_youtube_video_id_empty: "get_youtube_video_id L [] = Inr None"
  by (simp add: get_youtube_video_id_def urlparse_def split_scheme_def before_first_def
      netloc_error_def hostname_def after_last_def)

lemma video_id_or_400_resolved:
  assumes "get_youtube_video_id L url = Inr (Some vid)" and "vid \<noteq> []"
  shows "video_id_or_400 L url = Inr vid"
proof -
  have "url \<noteq> []" using assms(1) by (auto simp: get_youtube_video_id_empty)
  then show ?thesis using assms by (simp add: video_id_or_400_def video_id_try_body_def)
qed

lemma video_id_or_400_invalid:
  assumes "url = [] \<or> (\<forall>vid. get_youtube_video_id L url = Inr (Some vid) \<longrightarrow> vid = [])"
  shows "\<exists>d. video_id_or_400 L url = Inl (HTTPException 400 d)"
  using assms
  by (auto simp: video_id_or_400_def video_id_try_body_def split: sum.splits option.splits)

lemma py_join_spaced: "py_join '' '' ts = spaced ts"
proof (cases ts)
  case Nil
  then show ?thesis by (simp add: spaced_def)
next
  case (Cons t rest)
  have "py_join '' '' (t # rest) = t @ concat (map (\<lambda>s. CHR '' '' # s) rest)"
    by (induction rest arbitrary: t) auto
  then show ?thesis using Cons by (simp add: spaced_def)
qed

lemma captions_arg: "(if truthy languages then languages else None) = captions_languages languages"
  by (auto simp: truthy_def captions_languages_def split: option.splits)

lemma timestamps_arg:
  "(if truthy languages then languages else Some [''en'']) = timestamps_languages languages"
  by (auto simp: truthy_def timestamps_languages_def split: option.splits)

lemma get_video_captions_resolved:
  assumes "get_youtube_video_id L url = Inr (Some vid)" and "vid \<noteq> []"
  shows "get_video_captions L E url languages =
     ((case get_transcript E vid (captions_languages languages) of
         Inl e \<Rightarrow> Inl (HTTPException 500 (''Error getting captions for video: '' @ exc_str e))
       | Inr captions \<Rightarrow>
           if captions \<noteq> [] then Inr (py_join '' '' (map line_text captions))
           else Inr ''No captions found for video''),
      [TranscriptCall vid (captions_languages languages)])"
  using video_id_or_400_resolved [OF assms]
  by (simp only: get_video_captions_def captions_arg Let_def sum.case)

lemma get_video_timestamps_resolved:
  assumes "get_youtube_video_id L url = Inr (Some vid)" and "vid \<noteq> []"
  shows "get_video_timestamps L E url languages =
     ((case get_transcript E vid (timestamps_languages languages) of
         Inl e \<Rightarrow> Inl (HTTPException 500 (''Error generating timestamps: '' @ exc_str e))
       | Inr captions \<Rightarrow> Inr (map timestamp_entry captions)),
      [TranscriptCall vid (timestamps_languages languages)])"
  using video_id_or_400_resolved [OF assms]
  by (simp only: get_video_timestamps_def timestamps_arg Let_def sum.case)

lemma quote_plus_append: "quote_plus (a @ b) = quote_plus a @ quote_plus b"
  by (simp add: quote_plus_def)

lemma quote_plus_watch:
  "quote_plus ''https://www.youtube.com/watch?v='' = ''https%3A%2F%2Fwww.youtube.com%2Fwatch%3Fv%3D''"
  by code_simp

lemma quote_plus_names:
  "quote_plus ''format'' = ''format''" "quote_plus ''json'' = ''json''" "quote_plus ''url'' = ''url''"
  by code_simp+

lemma quote_plus_watch_id:
  "quote_plus (''https://www.youtube.com/watch?v='' @ v) =
     ''https%3A%2F%2Fwww.youtube.com%2Fwatch%3Fv%3D'' @ quote_plus v"
  by (simp only: quote_plus_append quote_plus_watch)

lemma full_url_eq:
  "''https://www.youtube.com/oembed'' @ ''?'' @
     urlencode [(''format'', ''json''), (''url'', ''https://www.youtube.com/watch?v='' @ v)]
   = oembed_request v"
proof -
  have "urlencode [(''format'', ''json''), (''url'', ''https://www.youtube.com/watch?v='' @ v)]
      = (''format'' @ ''='' @ ''json'') @ ''&'' @ (''url'' @ ''='' @
          ''https%3A%2F%2Fwww.youtube.com%2Fwatch%3Fv%3D'' @ quote_plus v)"
    by (simp only: urlencode_def list.map prod.case py_join.simps quote_plus_names
        quote_plus_watch_id)
  then show ?thesis by (simp add: oembed_request_def)
qed

lemma get_video_data_resolved:
  assumes "get_youtube_video_id L url = Inr (Some vid)" and "vid \<noteq> []"
  shows "get_video_data L E url =
     ((case urlopen_json E (oembed_request vid) of
         Inl e \<Rightarrow> Inl (HTTPException 500 (''Error getting video data: '' @ exc_str e))
       | Inr (JObject video_data) \<Rightarrow> Inr (clean_data video_data)
       | Inr other \<Rightarrow>
           Inl (HTTPException 500
                  (''Error getting video data: '' @ exc_str (no_get_attribute other)))),
      [OEmbedCall (oembed_request vid)])"
  using video_id_or_400_resolved [OF assms]
  by (simp only: get_video_data_def full_url_eq Let_def sum.case)

section \<open>Claims about the three operations\<close>

text \<open>
  Claim C2. For a URL that resolves to a video identifier, the captions operation returns
  the texts of the caption lines, in the order of the transcript, with one space between
  neighbours; when the transcript has no line it returns the string
  "No captions found for video".
\<close>

theorem captions_joined_with_space:
  assumes "get_youtube_video_id L url = Inr (Some vid)" and "vid \<noteq> []"
    and "get_transcript E vid (captions_languages languages) = Inr captions"
  shows "fst (get_video_captions L E url languages) =
           Inr (if captions = [] then ''No captions found for video''
                else spaced (map line_text captions))"
  using assms(3)
  by (simp add: get_video_captions_resolved [OF assms(1,2)] py_join_spaced)

theorem captions_joined_with_space_witness:
  "fst (get_video_captions ascii_lib stub_env ''https://www.youtube.com/watch?v=dQw4w9WgXcQ'' None)
     = Inr ''Hello world'' \<and>
   fst (get_video_captions ascii_lib silent_env ''https://youtu.be/dQw4w9WgXcQ'' (Some [''de'']))
     = Inr ''No captions found for video''"
proof -
  have r1: "get_youtube_video_id ascii_lib ''https://www.youtube.com/watch?v=dQw4w9WgXcQ''
              = Inr (Some ''dQw4w9WgXcQ'')" by code_simp
  have r2: "get_youtube_video_id ascii_lib ''https://youtu.be/dQw4w9WgXcQ''
              = Inr (Some ''dQw4w9WgXcQ'')" by code_simp
  have t1: "get_transcript stub_env ''dQw4w9WgXcQ'' (captions_languages None)
              = Inr [\<lparr>line_start = 0, line_text = ''Hello''\<rparr>,
                     \<lparr>line_start = 62, line_text = ''world''\<rparr>]"
    by (simp add: stub_env_def)
  have t2: "get_transcript silent_env ''dQw4w9WgXcQ'' (captions_languages (Some [''de'']))
              = Inr []"
    by (simp add: silent_env_def)
  show ?thesis
    using captions_joined_with_space [OF r1 _ t1] captions_joined_with_space [OF r2 _ t2]
    by (simp add: spaced_def)
qed

text \<open>
  Claim C4. For a URL that is empty, that the parser rejects, or that yields no video
  identifier (none, or the empty string), each of the three operations ends with an
  \<open>HTTPException\<close> of status 400 and has made no outbound call.
\<close>

theorem invalid_input_before_any_call:
  assumes "url = [] \<or> (\<forall>vid. get_youtube_video_id L url = Inr (Some vid) \<longrightarrow> vid = [])"
  shows "(\<exists>d. get_video_data L E url = (Inl (HTTPException 400 d), [])) \<and>
         (\<exists>d. get_video_captions L E url languages = (Inl (HTTPException 400 d), [])) \<and>
         (\<exists>d. get_video_timestamps L E url languages = (Inl (HTTPException 400 d), []))"
proof -
  obtain d where "video_id_or_400 L url = Inl (HTTPException 400 d)"
    using video_id_or_400_invalid [OF assms] by blast
  then show ?thesis
    by (simp add: get_video_data_def get_video_captions_def get_video_timestamps_def)
qed

theorem invalid_input_before_any_call_witness:
  "(\<exists>d. get_video_data ascii_lib stub_env '''' = (Inl (HTTPException 400 d), [])) \<and>
   (\<exists>d. get_video_captions ascii_lib stub_env ''https://[youtu.be/abc'' None
          = (Inl (HTTPException 400 d), [])) \<and>
   (\<exists>d. get_video_timestamps ascii_lib stub_env ''https://vimeo.com/12345'' None
          = (Inl (HTTPException 400 d), []))"
proof -
  have u: "get_youtube_video_id ascii_lib ''https://[youtu.be/abc'' = Inl ValueError"
    by code_simp
  have v: "get_youtube_video_id ascii_lib ''https://vimeo.com/12345'' = Inr None"
    by code_simp
  show ?thesis
    using invalid_input_before_any_call [of "''''" ascii_lib stub_env]
      invalid_input_before_any_call [of "''https://[youtu.be/abc''" ascii_lib stub_env None]
      invalid_input_before_any_call [of "''https://vimeo.com/12345''" ascii_lib stub_env None]
    by (simp add: u v)
qed

text \<open>
  Claim C5. For a URL that resolves to a video identifier, an exception of the transcript
  source or of the metadata provider, of whatever class, ends the operation with an
  \<open>HTTPException\<close> of status 500 whose detail is a fixed prefix followed by the text of
  the exception; the class of the exception does not appear in the answer. A response of
  the metadata provider that is JSON but not an object ends the same way.
\<close>

theorem upstream_failure_is_500:
  assumes "get_youtube_video_id L url = Inr (Some vid)" and "vid \<noteq> []"
  shows "(get_transcript E vid (captions_languages languages) = Inl e \<longrightarrow>
            fst (get_video_captions L E url languages) =
              Inl (HTTPException 500 (''Error getting captions for video: '' @ exc_str e))) \<and>
         (get_transcript E vid (timestamps_languages languages) = Inl e \<longrightarrow>
            fst (get_video_timestamps L E url languages) =
              Inl (HTTPException 500 (''Error generating timestamps: '' @ exc_str e))) \<and>
         (urlopen_json E (oembed_request vid) = Inl e \<longrightarrow>
            fst (get_video_data L E url) =
              Inl (HTTPException 500 (''Error getting video data: '' @ exc_str e))) \<and>
         (urlopen_json E (oembed_request vid) = Inr j \<and> (\<forall>d. j \<noteq> JObject d) \<longrightarrow>
            fst (get_video_data L E url) =
              Inl (HTTPException 500
                     (''Error getting video data: '' @ exc_str (no_get_attribute j))))"
proof -
  have "fst (get_video_data L E url) =
          Inl (HTTPException 500 (''Error getting video data: '' @ exc_str (no_get_attribute j)))"
    if "urlopen_json E (oembed_request vid) = Inr j" and "\<forall>d. j \<noteq> JObject d"
    using that by (cases j) (simp_all add: get_video_data_resolved [OF assms])
  then show ?thesis
    by (simp add: get_video_captions_resolved [OF assms] get_video_timestamps_resolved [OF assms]
        get_video_data_resolved [OF assms])
qed

theorem upstream_failure_is_500_witness:
  "fst (get_video_captions ascii_lib failing_env ''https://youtu.be/dQw4w9WgXcQ'' None) =
     Inl (HTTPException 500 ''Error getting captions for video: Subtitles are disabled'') \<and>
   fst (get_video_timestamps ascii_lib failing_env ''https://youtu.be/dQw4w9WgXcQ'' None) =
     Inl (HTTPException 500 ''Error generating timestamps: Subtitles are disabled'') \<and>
   fst (get_video_data ascii_lib failing_env ''https://youtu.be/dQw4w9WgXcQ'') =
     Inl (HTTPException 500 ''Error getting video data: HTTP Error 404: Not Found'') \<and>
   fst (get_video_data ascii_lib silent_env ''https://youtu.be/dQw4w9WgXcQ'') =
     Inl (HTTPException 500 (''Error getting video data: '' @ exc_str (no_get_attribute (JArray []))))"
proof -
  have r: "get_youtube_video_id ascii_lib ''https://youtu.be/dQw4w9WgXcQ''
             = Inr (Some ''dQw4w9WgXcQ'')" by code_simp
  have n: "''dQw4w9WgXcQ'' \<noteq> []" by simp
  show ?thesis
    using upstream_failure_is_500 [OF r n, of failing_env None
        "PyException ''TranscriptsDisabled'' ''Subtitles are disabled''"]
      upstream_failure_is_500 [OF r n, of failing_env None
        "PyException ''HTTPError'' ''HTTP Error 404: Not Found''"]
      upstream_failure_is_500 [OF r n, of silent_env None _ "JArray []"]
    by (simp add: failing_env_def silent_env_def)
qed

text \<open>
  Claim C8. For a URL that resolves to a video identifier: when the caller gives no
  language list, the timestamps operation asks the transcript source for the languages
  \<open>["en"]\<close> and the captions operation asks without a language argument; a list that is not
  empty is passed on as it is by both.
\<close>

theorem default_languages:
  assumes "get_youtube_video_id L url = Inr (Some vid)" and "vid \<noteq> []"
  shows "snd (get_video_timestamps L E url None) = [TranscriptCall vid (Some [''en''])] \<and>
         snd (get_video_captions L E url None) = [TranscriptCall vid None] \<and>
         (ls \<noteq> [] \<longrightarrow>
            snd (get_video_captions L E url (Some ls)) = [TranscriptCall vid (Some ls)] \<and>
            snd (get_video_timestamps L E url (Some ls)) = [TranscriptCall vid (Some ls)])"
  by (simp add: get_video_captions_resolved [OF assms] get_video_timestamps_resolved [OF assms]
      captions_languages_def timestamps_languages_def)

theorem default_languages_witness:
  "snd (get_video_timestamps ascii_lib stub_env ''https://www.youtube.com/embed/dQw4w9WgXcQ'' None)
     = [TranscriptCall ''dQw4w9WgXcQ'' (Some [''en''])] \<and>
   snd (get_video_captions ascii_lib stub_env ''https://www.youtube.com/embed/dQw4w9WgXcQ'' None)
     = [TranscriptCall ''dQw4w9WgXcQ'' None] \<and>
   snd (get_video_captions ascii_lib stub_env ''https://www.youtube.com/embed/dQw4w9WgXcQ''
          (Some [''de'', ''fr''])) = [TranscriptCall ''dQw4w9WgXcQ'' (Some [''de'', ''fr''])] \<and>
   snd (get_video_timestamps ascii_lib stub_env ''https://www.youtube.com/embed/dQw4w9WgXcQ''
          (Some [''de'', ''fr''])) = [TranscriptCall ''dQw4w9WgXcQ'' (Some [''de'', ''fr''])]"
proof -
  have r: "get_youtube_video_id ascii_lib ''https://www.youtube.com/embed/dQw4w9WgXcQ''
             = Inr (Some ''dQw4w9WgXcQ'')" by code_simp
  have n: "''dQw4w9WgXcQ'' \<noteq> []" by simp
  show ?thesis
    using default_languages [OF r n, of stub_env "[''de'', ''fr'']"] by simp
qed

text \<open>
  Claim C9. For a URL that resolves to a video identifier and a JSON object returned by
  the oEmbed provider, the metadata operation returns a dictionary with exactly the ten
  named keys, in the order of the source; each key carries the value the object has for
  it, and \<open>None\<close> when the object has no such key. No exception is raised.
\<close>

theorem metadata_projection:
  assumes "get_youtube_video_id L url = Inr (Some vid)" and "vid \<noteq> []"
    and "urlopen_json E (oembed_request vid) = Inr (JObject video_data)"
  shows "\<exists>r. fst (get_video_data L E url) = Inr r \<and>
             map fst r = video_data_keys \<and>
             (\<forall>k \<in> set video_data_keys.
                map_of r k = Some (case map_of video_data k of None \<Rightarrow> JNull | Some v \<Rightarrow> v))"
proof -
  have "fst (get_video_data L E url) = Inr (clean_data video_data)"
    using assms(3) by (simp add: get_video_data_resolved [OF assms(1,2)])
  moreover have "map fst (clean_data video_data) = video_data_keys"
    by (simp add: clean_data_def video_data_keys_def)
  moreover have "\<forall>k \<in> set video_data_keys.
      map_of (clean_data video_data) k =
        Some (case map_of video_data k of None \<Rightarrow> JNull | Some v \<Rightarrow> v)"
    by (simp add: clean_data_def video_data_keys_def dict_get_def)
  ultimately show ?thesis by blast
qed

theorem metadata_projection_witness:
  "\<exists>r. fst (get_video_data ascii_lib stub_env ''https://www.youtube.com/v/dQw4w9WgXcQ'') = Inr r \<and>
       map fst r = video_data_keys \<and>
       map_of r ''title'' = Some (JString ''Hello'') \<and>
       map_of r ''height'' = Some (JInt 113) \<and>
       map_of r ''thumbnail_url'' = Some JNull"
proof -
  have r: "get_youtube_video_id ascii_lib ''https://www.youtube.com/v/dQw4w9WgXcQ''
             = Inr (Some ''dQw4w9WgXcQ'')" by code_simp
  have n: "''dQw4w9WgXcQ'' \<noteq> []" by simp
  have u: "urlopen_json stub_env (oembed_request ''dQw4w9WgXcQ'')
             = Inr (JObject [(''title'', JString ''Hello''), (''height'', JInt 113)])"
    by (simp add: stub_env_def)
  show ?thesis
    using metadata_projection [OF r n u] by (auto simp: video_data_keys_def)
qed

text \<open>
  Claim C10. For a URL that resolves to a video identifier, the empty language list gives
  the same result and the same outbound call as no language list: the captions operation
  asks the transcript source without a language argument, the timestamps operation asks
  for \<open>["en"]\<close>.
\<close>

theorem empty_language_list_as_omitted:
  assumes "get_youtube_video_id L url = Inr (Some vid)" and "vid \<noteq> []"
  shows "get_video_captions L E url (Some []) = get_video_captions L E url None \<and>
         snd (get_video_captions L E url (Some [])) = [TranscriptCall vid None] \<and>
         get_video_timestamps L E url (Some []) = get_video_timestamps L E url None \<and>
         snd (get_video_timestamps L E url (Some [])) = [TranscriptCall vid (Some [''en''])]"
  by (simp add: get_video_captions_resolved [OF assms] get_video_timestamps_resolved [OF assms]
      captions_languages_def timestamps_languages_def)

theorem empty_language_list_as_omitted_witness:
  "get_video_captions ascii_lib stub_env ''https://youtu.be/dQw4w9WgXcQ'' (Some []) =
     get_video_captions ascii_lib stub_env ''https://youtu.be/dQw4w9WgXcQ'' None \<and>
   snd (get_video_captions ascii_lib stub_env ''https://youtu.be/dQw4w9WgXcQ'' (Some []))
     = [TranscriptCall ''dQw4w9WgXcQ'' None] \<and>
   get_video_timestamps ascii_lib stub_env ''https://youtu.be/dQw4w9WgXcQ'' (Some []) =
     get_video_timestamps ascii_lib stub_env ''https://youtu.be/dQw4w9WgXcQ'' None \<and>
   snd (get_video_timestamps ascii_lib stub_env ''https://youtu.be/dQw4w9WgXcQ'' (Some []))
     = [TranscriptCall ''dQw4w9WgXcQ'' (Some [''en''])]"
proof -
  have r: "get_youtube_video_id ascii_lib ''https://youtu.be/dQw4w9WgXcQ''
             = Inr (Some ''dQw4w9WgXcQ'')" by code_simp
  have n: "''dQw4w9WgXcQ'' \<noteq> []" by simp
  show ?thesis
    by (rule empty_language_list_as_omitted [OF r n])
qed

section \<open>Decimal formatting\<close>

lemma digit_char_of_char: "d < 10 \<Longrightarrow> of_char (digit_char d) = 48 + d"
  by (simp add: digit_char_def)

lemma digit_char_zero: "digit_char 0 = CHR ''0''"
  by code_simp

lemma str_nat_small: "n < 10 \<Longrightarrow> str_nat n = [digit_char n]"
  by (simp add: str_nat.simps)

lemma str_nat_large: "\<not> n < 10 \<Longrightarrow> str_nat n = str_nat (n div 10) @ [digit_char (n mod 10)]"
  by (subst str_nat.simps) simp

lemma str_nat_digits: "list_all is_ascii_digit (str_nat n)"
proof (induction n rule: str_nat.induct)
  case (1 n)
  show ?case
  proof (cases "n < 10")
    case True
    then show ?thesis
      by (simp add: str_nat_small is_ascii_digit_def digit_char_of_char)
  next
    case False
    then show ?thesis
      using "1.IH" by (simp add: str_nat_large is_ascii_digit_def digit_char_of_char)
  qed
qed

lemma decimal_value_snoc:
  "decimal_value (s @ [c]) = 10 * decimal_value s + (of_char c - 48)"
  by (simp add: decimal_value_def)

lemma str_nat_value: "decimal_value (str_nat n) = n"
proof (induction n rule: str_nat.induct)
  case (1 n)
  show ?case
  proof (cases "n < 10")
    case True
    then show ?thesis
      by (simp add: str_nat_small decimal_value_def digit_char_of_char)
  next
    case False
    then show ?thesis
      using "1.IH" by (simp add: str_nat_large decimal_value_snoc digit_char_of_char)
  qed
qed

lemma str_nat_not_empty: "str_nat n \<noteq> []"
  by (cases "n < 10") (simp_all add: str_nat_small str_nat_large)

lemma str_nat_no_leading_zero: "0 < n \<Longrightarrow> hd (str_nat n) \<noteq> CHR ''0''"
proof (induction n rule: str_nat.induct)
  case (1 n)
  show ?case
  proof (cases "n < 10")
    case True
    have "of_char (digit_char n) \<noteq> (of_char CHR ''0'' :: nat)"
      using True "1.prems" by (simp add: digit_char_of_char)
    then have "digit_char n \<noteq> CHR ''0''" by auto
    then show ?thesis using True by (simp add: str_nat_small)
  next
    case False
    then have "0 < n div 10" by simp
    then have "hd (str_nat (n div 10)) \<noteq> CHR ''0''" using "1.IH" False by simp
    then show ?thesis using False by (simp add: str_nat_large str_nat_not_empty)
  qed
qed

lemma fmt_02d_two_digits:
  assumes "0 \<le> s" and "s < 60"
  shows "fmt_02d s = two_digits s"
proof (cases "nat s < 10")
  case True
  then show ?thesis
    using assms by (simp add: fmt_02d_def two_digits_def zfill_def str_nat_small digit_char_zero)
next
  case False
  then have "nat s div 10 < 10" using assms by simp
  then show ?thesis
    using assms False
    by (simp add: fmt_02d_def two_digits_def zfill_def str_nat_large str_nat_small)
qed

lemma timestamp_entry_eq:
  "timestamp_entry line =
     str_int (py_int (line_start line) div 60) @ '':'' @
     two_digits (py_int (line_start line) mod 60) @ '' - '' @ line_text line"
  by (simp add: timestamp_entry_def Let_def fmt_02d_two_digits)

lemma timestamp_examples:
  "timestamp_entry \<lparr>line_start = 65, line_text = t\<rparr> = ''1:05 - '' @ t"
  "timestamp_entry \<lparr>line_start = 5, line_text = t\<rparr> = ''0:05 - '' @ t"
  "timestamp_entry \<lparr>line_start = 125, line_text = t\<rparr> = ''2:05 - '' @ t"
proof -
  have d: "digit_char 0 = CHR ''0''" "digit_char 1 = CHR ''1''" "digit_char 2 = CHR ''2''"
    "digit_char 5 = CHR ''5''"
    by code_simp+
  have m: "str_int 0 = ''0''" "str_int 1 = ''1''" "str_int 2 = ''2''"
    by code_simp+
  show "timestamp_entry \<lparr>line_start = 65, line_text = t\<rparr> = ''1:05 - '' @ t"
    by (simp add: timestamp_entry_eq py_int_def two_digits_def d m)
  show "timestamp_entry \<lparr>line_start = 5, line_text = t\<rparr> = ''0:05 - '' @ t"
    by (simp add: timestamp_entry_eq py_int_def two_digits_def d m)
  show "timestamp_entry \<lparr>line_start = 125, line_text = t\<rparr> = ''2:05 - '' @ t"
    by (simp add: timestamp_entry_eq py_int_def two_digits_def d m)
qed

text \<open>
  Claim C3. For a URL that resolves to a video identifier, the timestamps operation maps
  each caption line, in the order of the transcript, to the minutes, a colon, the seconds
  as two digits, the separator \<open>" - "\<close> and the text, where the start offset is truncated
  to whole seconds, the minutes are its quotient by 60 written without padding and the
  seconds its remainder. A start of 65 gives \<open>1:05\<close>, of 5 gives \<open>0:05\<close>, of 125 gives
  \<open>2:05\<close>. A transcript without lines gives the empty list.
\<close>

theorem timestamps_format:
  assumes "get_youtube_video_id L url = Inr (Some vid)" and "vid \<noteq> []"
    and "get_transcript E vid (timestamps_languages languages) = Inr captions"
  shows "fst (get_video_timestamps L E url languages) =
           Inr (map (\<lambda>line. str_int (py_int (line_start line) div 60) @ '':'' @
                            two_digits (py_int (line_start line) mod 60) @ '' - '' @
                            line_text line) captions) \<and>
         (captions = [] \<longrightarrow> fst (get_video_timestamps L E url languages) = Inr []) \<and>
         timestamp_entry \<lparr>line_start = 65, line_text = t\<rparr> = ''1:05 - '' @ t \<and>
         timestamp_entry \<lparr>line_start = 5, line_text = t\<rparr> = ''0:05 - '' @ t \<and>
         timestamp_entry \<lparr>line_start = 125, line_text = t\<rparr> = ''2:05 - '' @ t"
proof -
  have a: "fst (get_video_timestamps L E url languages) = Inr (map timestamp_entry captions)"
    using assms(3) by (simp add: get_video_timestamps_resolved [OF assms(1,2)])
  have b: "map timestamp_entry captions =
      map (\<lambda>line. str_int (py_int (line_start line) div 60) @ '':'' @
                     two_digits (py_int (line_start line) mod 60) @ '' - '' @
                     line_text line) captions"
    by (simp add: timestamp_entry_eq)
  show ?thesis
    unfolding a b by (simp add: timestamp_examples)
qed

theorem timestamps_format_witness:
  "fst (get_video_timestamps ascii_lib stub_env ''https://www.youtube.com/watch?v=dQw4w9WgXcQ'' None)
     = Inr [''0:00 - Hello'', ''1:02 - world''] \<and>
   fst (get_video_timestamps ascii_lib silent_env ''https://www.youtube.com/watch?v=dQw4w9WgXcQ''
          None) = Inr []"
proof -
  have r: "get_youtube_video_id ascii_lib ''https://www.youtube.com/watch?v=dQw4w9WgXcQ''
             = Inr (Some ''dQw4w9WgXcQ'')" by code_simp
  have n: "''dQw4w9WgXcQ'' \<noteq> []" by simp
  have t1: "get_transcript stub_env ''dQw4w9WgXcQ'' (timestamps_languages None)
              = Inr [\<lparr>line_start = 0, line_text = ''Hello''\<rparr>,
                     \<lparr>line_start = 62, line_text = ''world''\<rparr>]"
    by (simp add: stub_env_def)
  have t2: "get_transcript silent_env ''dQw4w9WgXcQ'' (timestamps_languages None) = Inr []"
    by (simp add: silent_env_def)
  have e: "str_int (py_int 0 div 60) @ '':'' @ two_digits (py_int 0 mod 60) = ''0:00''"
    "str_int (py_int 62 div 60) @ '':'' @ two_digits (py_int 62 mod 60) = ''1:02''"
    by code_simp+
  show ?thesis
    using timestamps_format [OF r n t1] timestamps_format [OF r n t2] e
    by simp
qed

section \<open>The parse result\<close>

lemma before_first_Nil: "before_first c [] = []"
  by (simp add: before_first_def)

lemma before_first_Cons: "before_first c (x # s) = (if x = c then [] else x # before_first c s)"
  by (simp add: before_first_def)

lemma before_first_absent: "c \<notin> set s \<Longrightarrow> before_first c s = s"
  by (auto simp: before_first_def)

lemma before_first_subset: "set (before_first c s) \<subseteq> set s - {c}"
  by (auto simp: before_first_def dest: set_takeWhileD)

lemma after_first_Nil: "after_first c [] = []"
  by (simp add: after_first_def)

lemma after_first_Cons: "after_first c (x # s) = (if x = c then s else after_first c s)"
  by (simp add: after_first_def)

lemma after_last_subset: "set (after_last c s) \<subseteq> set s"
  by (auto simp: after_last_def dest: set_takeWhileD)

lemma after_last_length: "length (after_last c (c # r)) \<le> length r"
proof -
  have "length (takeWhile (\<lambda>x. x \<noteq> c) (rev r @ [c])) \<le> length (rev r)"
    using length_takeWhile_le [of "\<lambda>x. x \<noteq> c" "rev r"] by (simp add: takeWhile_append)
  then show ?thesis by (simp add: after_last_def)
qed

lemma rooted_iff: "rooted s \<longleftrightarrow> s = [] \<or> s = CHR ''/'' # drop 1 s"
  by (cases s) (auto simp: rooted_def)

lemma splitparams_subset: "set (fst (splitparams s)) \<subseteq> set s"
proof -
  have "set (take n s) \<subseteq> set s" for n by (rule set_take_subset)
  moreover have "set (before_first CHR '';'' (after_last CHR ''/'' s)) \<subseteq> set s"
    using before_first_subset [of "CHR '';''" "after_last CHR ''/'' s"]
      after_last_subset [of "CHR ''/''" s] by blast
  ultimately show ?thesis by (auto simp: splitparams_def Let_def)
qed

lemma splitparams_rooted:
  assumes "rooted s"
  shows "rooted (fst (splitparams s))"
proof (cases s)
  case Nil
  then show ?thesis by (simp add: splitparams_def after_last_def rooted_def)
next
  case (Cons x r)
  then have x: "x = CHR ''/''" using assms by (simp add: rooted_def)
  define seg where "seg = after_last CHR ''/'' (CHR ''/'' # r)"
  have "length seg \<le> length r" unfolding seg_def by (rule after_last_length)
  then obtain n where n: "length (CHR ''/'' # r) - length seg = Suc n"
    by (metis Suc_diff_le length_Cons)
  show ?thesis
    using n by (simp add: Cons x splitparams_def Let_def seg_def [symmetric] rooted_def)
qed

lemma cut_rooted:
  assumes "s = [] \<or> netloc_delim (hd s)"
  shows "rooted (before_first CHR ''?'' (before_first CHR ''#'' s))"
  using assms
  by (cases s) (auto simp: rooted_def before_first_Cons before_first_Nil netloc_delim_def)

lemma dropWhile_netloc_delim:
  "dropWhile (\<lambda>c. \<not> netloc_delim c) s = [] \<or>
   netloc_delim (hd (dropWhile (\<lambda>c. \<not> netloc_delim c) s))"
  using hd_dropWhile [of "\<lambda>c. \<not> netloc_delim c" s] by auto

text \<open>The path of a parse result: it is cut before the first \<open>#\<close> and \<open>?\<close>, and it is
  empty or begins with a slash when there is a network location.\<close>

lemma urlparse_path:
  assumes "urlparse L url = Inr p"
  shows "CHR ''?'' \<notin> set (path p)" and "CHR ''#'' \<notin> set (path p)"
    and "netloc p \<noteq> [] \<Longrightarrow> rooted (path p)"
proof -
  define u2 where
    "u2 = snd (split_scheme (filter (\<lambda>c. \<not> unsafe_url_byte c) (dropWhile c0_control_or_space url)))"
  define u3 where
    "u3 = (if take 2 u2 = ''//'' then dropWhile (\<lambda>c. \<not> netloc_delim c) (drop 2 u2) else u2)"
  define u5 where "u5 = before_first CHR ''?'' (before_first CHR ''#'' u3)"
  have p: "path p = u5 \<or> path p = fst (splitparams u5)"
    using assms
    by (auto simp: urlparse_def Let_def splitnetloc_def u2_def u3_def u5_def before_first_absent
        split: prod.splits if_splits)
  have s5: "set u5 \<subseteq> set u3 - {CHR ''?'', CHR ''#''}"
    using before_first_subset [of "CHR ''?''" "before_first CHR ''#'' u3"]
      before_first_subset [of "CHR ''#''" u3] unfolding u5_def by blast
  show "CHR ''?'' \<notin> set (path p)" and "CHR ''#'' \<notin> set (path p)"
    using p s5 splitparams_subset [of u5] by auto
  show "rooted (path p)" if "netloc p \<noteq> []"
  proof -
    have "take 2 u2 = ''//''"
      using assms that
      by (auto simp: urlparse_def Let_def u2_def split: prod.splits if_splits)
    then have "u3 = dropWhile (\<lambda>c. \<not> netloc_delim c) (drop 2 u2)"
      by (simp add: u3_def)
    then have "rooted u5"
      unfolding u5_def using cut_rooted [OF dropWhile_netloc_delim [of "drop 2 u2"]] by simp
    then show ?thesis using p splitparams_rooted by auto
  qed
qed

lemma hostname_netloc: "hostname p = Some h \<Longrightarrow> netloc p \<noteq> []"
  by (auto simp: hostname_def Let_def after_last_def before_first_def split: if_splits)

text \<open>
  Claim C7. For a URL whose host name is \<open>youtu.be\<close>, the video id is the path of the
  parse result without its leading slash, with nothing else removed. The path is empty or
  begins with a slash; the query string and the fragment are not part of it.
\<close>

theorem youtu_be_path_stripped:
  assumes "urlparse L url = Inr p" and "hostname p = Some ''youtu.be''"
  shows "get_youtube_video_id L url = Inr (Some (drop 1 (path p))) \<and>
         (path p = [] \<or> path p = CHR ''/'' # drop 1 (path p)) \<and>
         CHR ''?'' \<notin> set (path p) \<and> CHR ''#'' \<notin> set (path p)"
proof -
  have "rooted (path p)"
    using urlparse_path(3) [OF assms(1)] hostname_netloc [OF assms(2)] by simp
  then have "path p = [] \<or> path p = CHR ''/'' # drop 1 (path p)"
    by (simp add: rooted_iff)
  moreover have "get_youtube_video_id L url = Inr (Some (drop 1 (path p)))"
    using assms by (simp add: get_youtube_video_id_def)
  ultimately show ?thesis
    using urlparse_path(1,2) [OF assms(1)] by simp
qed

theorem youtu_be_path_stripped_witness:
  "get_youtube_video_id ascii_lib ''https://youtu.be/dQw4w9WgXcQ&feature=share?t=42''
     = Inr (Some ''dQw4w9WgXcQ&feature=share'')"
proof -
  have u: "urlparse ascii_lib ''https://youtu.be/dQw4w9WgXcQ&feature=share?t=42'' =
      Inr \<lparr>scheme = ''https'', netloc = ''youtu.be'', path = ''/dQw4w9WgXcQ&feature=share'',
           params = '''', query = ''t=42'', fragment = ''''\<rparr>"
    by code_simp
  have h: "hostname \<lparr>scheme = ''https'', netloc = ''youtu.be'',
      path = ''/dQw4w9WgXcQ&feature=share'', params = '''', query = ''t=42'',
      fragment = ''''\<rparr> = Some ''youtu.be''"
    by code_simp
  show ?thesis
    using youtu_be_path_stripped [OF u h] by simp
qed

section \<open>The query string\<close>

lemma parse_qs_loop_lookup:
  "parse_qs_loop d ps k =
     (case d k of
        None \<Rightarrow> (case map snd (filter (\<lambda>q. fst q = k) ps) of [] \<Rightarrow> None | v # vs \<Rightarrow> Some (v # vs))
      | Some ws \<Rightarrow> Some (ws @ map snd (filter (\<lambda>q. fst q = k) ps)))"
proof (induction ps arbitrary: d)
  case Nil
  then show ?case by (simp split: option.splits)
next
  case (Cons q ps)
  obtain name val where q: "q = (name, val)" by (cases q)
  show ?case
    by (simp add: q Cons.IH split: option.splits list.splits)
qed

lemma parse_qs_lookup:
  "parse_qs L qs k =
     (case map snd (filter (\<lambda>q. fst q = k) (parse_qsl L qs)) of
        [] \<Rightarrow> None | v # vs \<Rightarrow> Some (v # vs))"
  by (simp add: parse_qs_def parse_qs_loop_lookup)

lemma parse_fields_values:
  "map snd (filter (\<lambda>q. fst q = k) (concat (map (parse_field L) fs))) =
     map (\<lambda>f. unquote_plus L (after_first CHR ''='' f))
       (filter (\<lambda>f. after_first CHR ''='' f \<noteq> [] \<and> unquote_plus L (before_first CHR ''='' f) = k) fs)"
proof (induction fs)
  case Nil
  then show ?case by simp
next
  case (Cons f fs)
  have "f = [] \<Longrightarrow> after_first CHR ''='' f = []" by (simp add: after_first_Nil)
  then show ?case using Cons.IH by (auto simp: parse_field_def)
qed

lemma parse_qsl_v_values:
  "map snd (filter (\<lambda>q. fst q = ''v'') (parse_qsl L qs)) =
     map (\<lambda>f. unquote_plus L (after_first CHR ''='' f)) (v_fields L qs)"
proof (cases "qs = []")
  case True
  then show ?thesis by (simp add: parse_qsl_def v_fields_def after_first_Nil)
next
  case False
  then show ?thesis by (simp add: parse_qsl_def v_fields_def parse_fields_values)
qed

lemma query_v_first:
  "py_index (case parse_qs L qs ''v'' of Some vs \<Rightarrow> map Some vs | None \<Rightarrow> [None]) 0 =
     Inr (first_v_value L qs)"
  by (simp add: parse_qs_lookup parse_qsl_v_values first_v_value_def py_index_def
      split: list.splits)

text \<open>
  Claim C6, as amended. For a URL whose host name is \<open>youtube.com\<close> or
  \<open>www.youtube.com\<close> and whose path is exactly \<open>/watch\<close>, the video id is the decoded
  value of the first field of the query string that is named \<open>v\<close> and has a value that
  is not blank; there is no video id when the query string has no such field.
\<close>

theorem watch_first_nonblank_v:
  assumes "urlparse L url = Inr p"
    and "hostname p = Some ''youtube.com'' \<or> hostname p = Some ''www.youtube.com''"
    and "path p = ''/watch''"
  shows "get_youtube_video_id L url = Inr (first_v_value L (query p))"
  using assms by (auto simp: get_youtube_video_id_def Let_def query_v_first)

theorem watch_first_nonblank_v_witness:
  "get_youtube_video_id ascii_lib ''https://youtube.com/watch?t=42&v=dQw4w9WgXcQ&v=abc''
     = Inr (Some ''dQw4w9WgXcQ'') \<and>
   get_youtube_video_id ascii_lib ''https://youtube.com/watch?t=42'' = Inr None"
proof -
  have u1: "urlparse ascii_lib ''https://youtube.com/watch?t=42&v=dQw4w9WgXcQ&v=abc'' =
      Inr \<lparr>scheme = ''https'', netloc = ''youtube.com'', path = ''/watch'', params = '''',
           query = ''t=42&v=dQw4w9WgXcQ&v=abc'', fragment = ''''\<rparr>"
    by code_simp
  have u2: "urlparse ascii_lib ''https://youtube.com/watch?t=42'' =
      Inr \<lparr>scheme = ''https'', netloc = ''youtube.com'', path = ''/watch'', params = '''',
           query = ''t=42'', fragment = ''''\<rparr>"
    by code_simp
  have h: "hostname \<lparr>scheme = ''https'', netloc = ''youtube.com'', path = ''/watch'',
      params = '''', query = q, fragment = ''''\<rparr> = Some ''youtube.com''" for q
    by (simp add: hostname_def after_last_def before_first_def py_lower_def ascii_lower_def)
  have f1: "first_v_value ascii_lib ''t=42&v=dQw4w9WgXcQ&v=abc'' = Some ''dQw4w9WgXcQ''"
    by code_simp
  have f2: "first_v_value ascii_lib ''t=42'' = None"
    by code_simp
  show ?thesis
    using watch_first_nonblank_v [OF u1] watch_first_nonblank_v [OF u2]
    by (simp add: h f1 f2)
qed

theorem watch_blank_v_counterexample:
  "get_youtube_video_id ascii_lib ''https://www.youtube.com/watch?v=&v=abc'' = Inr (Some ''abc'') \<and>
   get_youtube_video_id ascii_lib ''https://www.youtube.com/watch?v='' = Inr None"
  by code_simp

section \<open>The four URL shapes\<close>

lemma plain_id_facts:
  assumes "plain_id ident"
  shows "ident \<noteq> []"
    and "filter (\<lambda>c. \<not> unsafe_url_byte c) ident = ident"
    and "CHR ''/'' \<notin> set ident" and "CHR ''?'' \<notin> set ident" and "CHR ''#'' \<notin> set ident"
    and "CHR '';'' \<notin> set ident" and "CHR ''&'' \<notin> set ident" and "CHR ''+'' \<notin> set ident"
    and "CHR ''%'' \<notin> set ident"
  using assms by (auto simp: plain_id_def list_all_iff filter_id_conv)

lemmas urlparse_unfold =
  urlparse_def Let_def split_scheme_def before_first_Cons after_first_Cons
  before_first_absent splitnetloc_def netloc_delim_def netloc_error_def
  c0_control_or_space_def unsafe_url_byte_def is_ascii_alpha_def scheme_char_def
  is_ascii_digit_def is_ascii_def py_lower_def ascii_lower_def uses_params_def

lemma urlparse_short:
  assumes "plain_id ident"
  shows "urlparse L (''https://youtu.be/'' @ ident) =
     Inr \<lparr>scheme = ''https'', netloc = ''youtu.be'', path = CHR ''/'' # ident, params = '''',
          query = '''', fragment = ''''\<rparr>"
    and "urlparse L (''http://youtu.be/'' @ ident) =
     Inr \<lparr>scheme = ''http'', netloc = ''youtu.be'', path = CHR ''/'' # ident, params = '''',
          query = '''', fragment = ''''\<rparr>"
  using plain_id_facts [OF assms] by (simp_all add: urlparse_unfold)

lemma urlparse_watch:
  assumes "plain_id ident"
  shows "urlparse L (''https://www.youtube.com/watch?v='' @ ident) =
     Inr \<lparr>scheme = ''https'', netloc = ''www.youtube.com'', path = ''/watch'', params = '''',
          query = ''v='' @ ident, fragment = ''''\<rparr>"
    and "urlparse L (''https://youtube.com/watch?v='' @ ident) =
     Inr \<lparr>scheme = ''https'', netloc = ''youtube.com'', path = ''/watch'', params = '''',
          query = ''v='' @ ident, fragment = ''''\<rparr>"
    and "urlparse L (''http://www.youtube.com/watch?v='' @ ident) =
     Inr \<lparr>scheme = ''http'', netloc = ''www.youtube.com'', path = ''/watch'', params = '''',
          query = ''v='' @ ident, fragment = ''''\<rparr>"
    and "urlparse L (''http://youtube.com/watch?v='' @ ident) =
     Inr \<lparr>scheme = ''http'', netloc = ''youtube.com'', path = ''/watch'', params = '''',
          query = ''v='' @ ident, fragment = ''''\<rparr>"
  using plain_id_facts [OF assms] by (simp_all add: urlparse_unfold)

lemma urlparse_embed:
  assumes "plain_id ident"
  shows "urlparse L (''https://www.youtube.com/embed/'' @ ident) =
     Inr \<lparr>scheme = ''https'', netloc = ''www.youtube.com'', path = ''/embed/'' @ ident,
          params = '''', query = '''', fragment = ''''\<rparr>"
    and "urlparse L (''https://youtube.com/embed/'' @ ident) =
     Inr \<lparr>scheme = ''https'', netloc = ''youtube.com'', path = ''/embed/'' @ ident,
          params = '''', query = '''', fragment = ''''\<rparr>"
    and "urlparse L (''http://www.youtube.com/embed/'' @ ident) =
     Inr \<lparr>scheme = ''http'', netloc = ''www.youtube.com'', path = ''/embed/'' @ ident,
          params = '''', query = '''', fragment = ''''\<rparr>"
    and "urlparse L (''http://youtube.com/embed/'' @ ident) =
     Inr \<lparr>scheme = ''http'', netloc = ''youtube.com'', path = ''/embed/'' @ ident,
          params = '''', query = '''', fragment = ''''\<rparr>"
  using plain_id_facts [OF assms] by (simp_all add: urlparse_unfold)

lemma urlparse_v:
  assumes "plain_id ident"
  shows "urlparse L (''https://www.youtube.com/v/'' @ ident) =
     Inr \<lparr>scheme = ''https'', netloc = ''www.youtube.com'', path = ''/v/'' @ ident,
          params = '''', query = '''', fragment = ''''\<rparr>"
    and "urlparse L (''https://youtube.com/v/'' @ ident) =
     Inr \<lparr>scheme = ''https'', netloc = ''youtube.com'', path = ''/v/'' @ ident,
          params = '''', query = '''', fragment = ''''\<rparr>"
    and "urlparse L (''http://www.youtube.com/v/'' @ ident) =
     Inr \<lparr>scheme = ''http'', netloc = ''www.youtube.com'', path = ''/v/'' @ ident,
          params = '''', query = '''', fragment = ''''\<rparr>"
    and "urlparse L (''http://youtube.com/v/'' @ ident) =
     Inr \<lparr>scheme = ''http'', netloc = ''youtube.com'', path = ''/v/'' @ ident,
          params = '''', query = '''', fragment = ''''\<rparr>"
  using plain_id_facts [OF assms] by (simp_all add: urlparse_unfold)

lemma hostname_known:
  "netloc p = ''youtu.be'' \<Longrightarrow> hostname p = Some ''youtu.be''"
  "netloc p = ''youtube.com'' \<Longrightarrow> hostname p = Some ''youtube.com''"
  "netloc p = ''www.youtube.com'' \<Longrightarrow> hostname p = Some ''www.youtube.com''"
  by (simp_all add: hostname_def after_last_def before_first_def py_lower_def ascii_lower_def)

lemma py_split_absent: "c \<notin> set s \<Longrightarrow> py_split c s = [s]"
  by (induction s) auto

lemma unquote_plus_plain:
  assumes "CHR ''+'' \<notin> set s" and "CHR ''%'' \<notin> set s"
  shows "unquote_plus L s = s"
proof -
  have "map (\<lambda>c. if c = CHR ''+'' then CHR '' '' else c) s = s"
    using assms(1) by (induction s) auto
  then show ?thesis using assms(2) by (simp add: unquote_plus_def unquote_def)
qed

lemma first_v_value_plain:
  assumes "plain_id ident"
  shows "first_v_value L (''v='' @ ident) = Some ident"
proof -
  have v: "unquote_plus L ''v'' = ''v''"
    by (simp add: unquote_plus_plain)
  have i: "unquote_plus L ident = ident"
    using plain_id_facts(8,9) [OF assms] by (simp add: unquote_plus_plain)
  show ?thesis
    using plain_id_facts(1,7) [OF assms]
    by (simp add: first_v_value_def v_fields_def py_split_absent before_first_Cons
        after_first_Cons before_first_Nil v i)
qed

lemma third_segment:
  assumes "plain_id ident"
  shows "py_index (py_split CHR ''/'' (''/embed/'' @ ident)) 2 = Inr ident"
    and "py_index (py_split CHR ''/'' (''/v/'' @ ident)) 2 = Inr ident"
  using plain_id_facts(3) [OF assms] by (simp_all add: py_split_absent py_index_def)

lemma extract_short:
  assumes "plain_id ident"
  shows "get_youtube_video_id L (''https://youtu.be/'' @ ident) = Inr (Some ident)"
    and "get_youtube_video_id L (''http://youtu.be/'' @ ident) = Inr (Some ident)"
  unfolding get_youtube_video_id_def urlparse_short [OF assms]
  by (simp_all add: hostname_known)

lemma extract_watch:
  assumes "plain_id ident"
  shows "get_youtube_video_id L (''https://www.youtube.com/watch?v='' @ ident) = Inr (Some ident)"
    and "get_youtube_video_id L (''https://youtube.com/watch?v='' @ ident) = Inr (Some ident)"
    and "get_youtube_video_id L (''http://www.youtube.com/watch?v='' @ ident) = Inr (Some ident)"
    and "get_youtube_video_id L (''http://youtube.com/watch?v='' @ ident) = Inr (Some ident)"
  unfolding get_youtube_video_id_def urlparse_watch [OF assms]
  using first_v_value_plain [OF assms, of L]
  by (simp_all add: hostname_known query_v_first)

lemma extract_embed:
  assumes "plain_id ident"
  shows "get_youtube_video_id L (''https://www.youtube.com/embed/'' @ ident) = Inr (Some ident)"
    and "get_youtube_video_id L (''https://youtube.com/embed/'' @ ident) = Inr (Some ident)"
    and "get_youtube_video_id L (''http://www.youtube.com/embed/'' @ ident) = Inr (Some ident)"
    and "get_youtube_video_id L (''http://youtube.com/embed/'' @ ident) = Inr (Some ident)"
  unfolding get_youtube_video_id_def urlparse_embed [OF assms]
  using third_segment(1) [OF assms]
  by (simp_all add: hostname_known py_startswith_def)

lemma extract_v:
  assumes "plain_id ident"
  shows "get_youtube_video_id L (''https://www.youtube.com/v/'' @ ident) = Inr (Some ident)"
    and "get_youtube_video_id L (''https://youtube.com/v/'' @ ident) = Inr (Some ident)"
    and "get_youtube_video_id L (''http://www.youtube.com/v/'' @ ident) = Inr (Some ident)"
    and "get_youtube_video_id L (''http://youtube.com/v/'' @ ident) = Inr (Some ident)"
  unfolding get_youtube_video_id_def urlparse_v [OF assms]
  using third_segment(2) [OF assms]
  by (simp_all add: hostname_known py_startswith_def)

text \<open>
  Claim C1, as amended. For every video id that is not empty and has none of the
  characters \<open>/ ? # ; & + %\<close>, tab, line feed and carriage return, the video id
  extracted from each of the four URL shapes (short, watch, embed and v, with either
  scheme and either name of the host) is that id, unchanged. For a URL whose host name
  is none of \<open>youtu.be\<close>, \<open>youtube.com\<close> and \<open>www.youtube.com\<close>, and for a URL of
  \<open>youtube.com\<close> or \<open>www.youtube.com\<close> whose path is not \<open>/watch\<close> and begins neither
  with \<open>/embed/\<close> nor with \<open>/v/\<close>, there is no video id.
\<close>

theorem url_shapes_extract:
  "(plain_id ident \<longrightarrow>
      (\<forall>u \<in> set (url_shapes ident). get_youtube_video_id L u = Inr (Some ident))) \<and>
   (urlparse L url = Inr p \<and>
    hostname p \<notin> {Some ''youtu.be'', Some ''youtube.com'', Some ''www.youtube.com''} \<longrightarrow>
      get_youtube_video_id L url = Inr None) \<and>
   (urlparse L url = Inr p \<and>
    hostname p \<in> {Some ''youtube.com'', Some ''www.youtube.com''} \<and>
    path p \<noteq> ''/watch'' \<and> \<not> py_startswith (path p) ''/embed/'' \<and>
    \<not> py_startswith (path p) ''/v/'' \<longrightarrow>
      get_youtube_video_id L url = Inr None)"
proof (intro conjI impI)
  assume "plain_id ident"
  then show "\<forall>u \<in> set (url_shapes ident). get_youtube_video_id L u = Inr (Some ident)"
    unfolding url_shapes_def
    by (simp only: list.set ball_simps extract_short extract_watch extract_embed extract_v
        simp_thms)
next
  assume "urlparse L url = Inr p \<and>
    hostname p \<notin> {Some ''youtu.be'', Some ''youtube.com'', Some ''www.youtube.com''}"
  then show "get_youtube_video_id L url = Inr None"
    by (auto simp: get_youtube_video_id_def)
next
  assume "urlparse L url = Inr p \<and>
    hostname p \<in> {Some ''youtube.com'', Some ''www.youtube.com''} \<and>
    path p \<noteq> ''/watch'' \<and> \<not> py_startswith (path p) ''/embed/'' \<and>
    \<not> py_startswith (path p) ''/v/''"
  then show "get_youtube_video_id L url = Inr None"
    by (auto simp: get_youtube_video_id_def)
qed

theorem url_shapes_extract_witness:
  "get_youtube_video_id ascii_lib ''https://youtu.be/dQw4w9WgXcQ'' = Inr (Some ''dQw4w9WgXcQ'') \<and>
   get_youtube_video_id ascii_lib ''https://www.youtube.com/watch?v=dQw4w9WgXcQ''
     = Inr (Some ''dQw4w9WgXcQ'') \<and>
   get_youtube_video_id ascii_lib ''https://www.youtube.com/embed/dQw4w9WgXcQ''
     = Inr (Some ''dQw4w9WgXcQ'') \<and>
   get_youtube_video_id ascii_lib ''https://www.youtube.com/v/dQw4w9WgXcQ''
     = Inr (Some ''dQw4w9WgXcQ'') \<and>
   get_youtube_video_id ascii_lib ''https://vimeo.com/watch?v=dQw4w9WgXcQ'' = Inr None \<and>
   get_youtube_video_id ascii_lib ''https://www.youtube.com/shorts/dQw4w9WgXcQ'' = Inr None"
proof -
  have i: "plain_id ''dQw4w9WgXcQ''" by code_simp
  have u1: "urlparse ascii_lib ''https://vimeo.com/watch?v=dQw4w9WgXcQ'' =
      Inr \<lparr>scheme = ''https'', netloc = ''vimeo.com'', path = ''/watch'', params = '''',
           query = ''v=dQw4w9WgXcQ'', fragment = ''''\<rparr>"
    by code_simp
  have h1: "hostname \<lparr>scheme = ''https'', netloc = ''vimeo.com'', path = ''/watch'',
      params = '''', query = ''v=dQw4w9WgXcQ'', fragment = ''''\<rparr> = Some ''vimeo.com''"
    by code_simp
  have u2: "urlparse ascii_lib ''https://www.youtube.com/shorts/dQw4w9WgXcQ'' =
      Inr \<lparr>scheme = ''https'', netloc = ''www.youtube.com'', path = ''/shorts/dQw4w9WgXcQ'',
           params = '''', query = '''', fragment = ''''\<rparr>"
    by code_simp
  have h2: "hostname \<lparr>scheme = ''https'', netloc = ''www.youtube.com'',
      path = ''/shorts/dQw4w9WgXcQ'', params = '''', query = '''', fragment = ''''\<rparr>
      = Some ''www.youtube.com''"
    by code_simp
  show ?thesis
    using url_shapes_extract [of "''dQw4w9WgXcQ''" ascii_lib
        "''https://vimeo.com/watch?v=dQw4w9WgXcQ''"
        "\<lparr>scheme = ''https'', netloc = ''vimeo.com'', path = ''/watch'', params = '''',
          query = ''v=dQw4w9WgXcQ'', fragment = ''''\<rparr>"]
      url_shapes_extract [of "''dQw4w9WgXcQ''" ascii_lib
        "''https://www.youtube.com/shorts/dQw4w9WgXcQ''"
        "\<lparr>scheme = ''https'', netloc = ''www.youtube.com'', path = ''/shorts/dQw4w9WgXcQ'',
          params = '''', query = '''', fragment = ''''\<rparr>"]
    by (simp add: i u1 h1 u2 h2 url_shapes_def py_startswith_def)
qed

theorem special_character_id_counterexample:
  "get_youtube_video_id ascii_lib (''https://www.youtube.com/embed/'' @ ''a/b'') = Inr (Some ''a'') \<and>
   get_youtube_video_id ascii_lib (''https://www.youtube.com/watch?v='' @ ''a+b'') = Inr (Some ''a b'') \<and>
   get_youtube_video_id ascii_lib (''https://youtu.be/'' @ ''a?b'') = Inr (Some ''a'')"
  by code_simp

end
